theory Spec2Isabelle
  imports Main "HOL-Library.Word"
begin

section \<open>Common types\<close>

type_synonym u8 = "8 word"
type_synonym u16 = "16 word"
type_synonym u32 = "32 word"

text \<open>
  A frame is the byte range \<open>(data, length)\<close> handed to \<open>send\<close> or to the receive
  callback. \<open>ReceiveCallback\<close> is a \<open>std::function\<close>; the model keeps the identity of
  its target (\<open>None\<close> is the empty function) and records every invocation in the trace
  of external calls.
\<close>

type_synonym frame = "u8 list"
type_synonym ReceiveCallback = nat

datatype ErrorCode = INVALID_STATE | HARDWARE_INIT_FAILED

type_synonym Result_void = "ErrorCode + unit"

section \<open>WebSocketTransport\<close>

datatype State = Disconnected | Connecting | Connected

text \<open>
  \<open>size_t maxPendingMessages\<close> is only compared with the vector's size: a \<open>nat\<close>.
  A member \<open>name_\<close> of the classes is the field \<open>name\<close> of the record (with the
  prefix \<open>ws_\<close> or \<open>udp_\<close> where both classes have it).
\<close>

record WebSocketConfig =
  url :: string
  autoReconnect :: bool
  reconnectDelayMs :: u32
  reconnectMaxDelayMs :: u32
  maxPendingMessages :: nat

definition default_WebSocketConfig :: WebSocketConfig where
  "default_WebSocketConfig =
     \<lparr>url = ''ws://127.0.0.1:9002'', autoReconnect = True, reconnectDelayMs = 1000,
      reconnectMaxDelayMs = 30000, maxPendingMessages = 100\<rparr>"

record WebSocketTransport =
  ws_config :: WebSocketConfig
  ws_socket :: int
  ws_state :: State
  ws_onReceive :: "ReceiveCallback option"
  pendingMessages :: "frame list"
  lastAttemptMs :: u32
  currentDelayMs :: u32
  reconnectAttempts :: u32

text \<open>
  The calls the transport makes on the Emscripten WebSocket API and on the registered
  callback, in the order it makes them. The result of
  \<open>emscripten_websocket_send_binary\<close> only selects a log line and is left out.
\<close>

datatype ws_call =
    WsDelete int
  | WsClose int
  | WsNew string
  | WsSetCallbacks int
  | WsSendBinary int frame
  | WsDeliver ReceiveCallback frame

text \<open>The constructor: member initialisers of the header, then the two of the constructor.\<close>

definition new_WebSocketTransport :: "WebSocketConfig \<Rightarrow> WebSocketTransport" where
  "new_WebSocketTransport config =
     \<lparr>ws_config = config, ws_socket = 0, ws_state = Disconnected, ws_onReceive = None,
      pendingMessages = [], lastAttemptMs = 0,
      currentDelayMs = reconnectDelayMs config, reconnectAttempts = 0\<rparr>"

definition ws_destroy :: "WebSocketTransport \<Rightarrow> WebSocketTransport \<times> ws_call list" where
  "ws_destroy s =
     (if ws_socket s > 0 then (s\<lparr>ws_socket := 0\<rparr>, [WsClose (ws_socket s), WsDelete (ws_socket s)])
      else (s, []))"

text \<open>
  \<open>scheduleReconnect\<close>; \<open>now\<close> is what \<open>oc::time::millis()\<close> returns. The arithmetic is
  that of \<open>uint32_t\<close>: the doubling and the counter wrap modulo \<open>2 ^ 32\<close>.
\<close>

definition scheduleReconnect :: "u32 \<Rightarrow> WebSocketTransport \<Rightarrow> WebSocketTransport" where
  "scheduleReconnect now s =
     (if \<not> autoReconnect (ws_config s) then s
      else s\<lparr>currentDelayMs := min (currentDelayMs s * 2) (reconnectMaxDelayMs (ws_config s)),
             lastAttemptMs := now,
             reconnectAttempts := reconnectAttempts s + 1\<rparr>)"

text \<open>
  \<open>connect\<close>; \<open>h\<close> is what \<open>emscripten_websocket_new\<close> returns (a handle when
  positive), \<open>now\<close> the clock reading of \<open>scheduleReconnect\<close> on the failure path.
\<close>

definition connect :: "int \<Rightarrow> u32 \<Rightarrow> WebSocketTransport \<Rightarrow> WebSocketTransport \<times> ws_call list" where
  "connect h now s =
     (let c1 = (if ws_socket s > 0 then [WsDelete (ws_socket s)] else []);
          s1 = (if ws_socket s > 0 then s\<lparr>ws_socket := 0\<rparr> else s);
          s2 = s1\<lparr>ws_socket := h\<rparr>;
          c2 = c1 @ [WsNew (url (ws_config s))]
      in if h \<le> 0 then (scheduleReconnect now s2, c2)
         else (s2\<lparr>ws_state := Connecting\<rparr>, c2 @ [WsSetCallbacks h]))"

text \<open>\<open>init\<close>; \<open>supported\<close> is what \<open>emscripten_websocket_is_supported\<close> returns.\<close>

definition ws_init ::
  "bool \<Rightarrow> int \<Rightarrow> u32 \<Rightarrow> WebSocketTransport \<Rightarrow> Result_void \<times> WebSocketTransport \<times> ws_call list" where
  "ws_init supported h now s =
     (if \<not> supported then (Inl INVALID_STATE, s, [])
      else (Inr (), connect h now s))"

text \<open>
  \<open>update\<close>; \<open>now\<close> is its own reading of the clock, \<open>h\<close> and \<open>now'\<close> are the inputs of
  the \<open>connect\<close> it may call. \<open>now - lastAttemptMs_\<close> is a \<open>uint32_t\<close> subtraction.
\<close>

definition ws_update ::
  "u32 \<Rightarrow> int \<Rightarrow> u32 \<Rightarrow> WebSocketTransport \<Rightarrow> WebSocketTransport \<times> ws_call list" where
  "ws_update now h now' s =
     (if ws_state s = Disconnected \<and> autoReconnect (ws_config s) then
        (if now - lastAttemptMs s \<ge> currentDelayMs s then
           (let (s1, c) = connect h now' s in (s1\<lparr>lastAttemptMs := now\<rparr>, c))
         else (s, []))
      else (s, []))"

text \<open>
  \<open>send\<close>. \<open>erase(begin())\<close> runs only when \<open>maxPendingMessages > 0\<close> and the vector
  holds at least that many entries, so never on an empty vector.
\<close>

definition ws_send :: "frame \<Rightarrow> WebSocketTransport \<Rightarrow> WebSocketTransport \<times> ws_call list" where
  "ws_send data s =
     (if ws_state s = Connected then (s, [WsSendBinary (ws_socket s) data])
      else if maxPendingMessages (ws_config s) = 0
              \<or> length (pendingMessages s) < maxPendingMessages (ws_config s)
           then (s\<lparr>pendingMessages := pendingMessages s @ [data]\<rparr>, [])
           else (s\<lparr>pendingMessages := tl (pendingMessages s) @ [data]\<rparr>, []))"

definition ws_setOnReceive ::
  "ReceiveCallback option \<Rightarrow> WebSocketTransport \<Rightarrow> WebSocketTransport" where
  "ws_setOnReceive cb s = s\<lparr>ws_onReceive := cb\<rparr>"

definition ws_isReady :: "WebSocketTransport \<Rightarrow> bool" where
  "ws_isReady s = (ws_state s = Connected)"

definition flushPendingMessages ::
  "WebSocketTransport \<Rightarrow> WebSocketTransport \<times> ws_call list" where
  "flushPendingMessages s =
     (if pendingMessages s = [] then (s, [])
      else (s\<lparr>pendingMessages := []\<rparr>, map (WsSendBinary (ws_socket s)) (pendingMessages s)))"

definition onOpen :: "WebSocketTransport \<Rightarrow> WebSocketTransport \<times> ws_call list" where
  "onOpen s =
     flushPendingMessages
       (s\<lparr>ws_state := Connected,
          currentDelayMs := reconnectDelayMs (ws_config s),
          reconnectAttempts := 0\<rparr>)"

definition onMessage :: "bool \<Rightarrow> frame \<Rightarrow> WebSocketTransport \<Rightarrow> WebSocketTransport \<times> ws_call list" where
  "onMessage isText payload s =
     (case ws_onReceive s of
        Some cb \<Rightarrow> if \<not> isText then (s, [WsDeliver cb payload]) else (s, [])
      | None \<Rightarrow> (s, []))"

definition onClose :: "u32 \<Rightarrow> WebSocketTransport \<Rightarrow> WebSocketTransport \<times> ws_call list" where
  "onClose now s = (scheduleReconnect now (s\<lparr>ws_state := Disconnected\<rparr>), [])"

definition onError :: "WebSocketTransport \<Rightarrow> WebSocketTransport \<times> ws_call list" where
  "onError s = (s, [])"

subsection \<open>Driving the transport\<close>

text \<open>
  What can happen to a transport: a call of the application (\<open>init\<close>, \<open>update\<close>,
  \<open>send\<close>, \<open>setOnReceive\<close>) or an event of the browser (open, message, close, error),
  each with the values the environment supplies to it. \<open>ws_run\<close> applies a sequence of
  them and collects the external calls.
\<close>

datatype ws_event =
    EvInit bool int u32
  | EvUpdate u32 int u32
  | EvSend frame
  | EvSetOnReceive "ReceiveCallback option"
  | EvOpen
  | EvMessage bool frame
  | EvClose u32
  | EvError

fun ws_step :: "ws_event \<Rightarrow> WebSocketTransport \<Rightarrow> WebSocketTransport \<times> ws_call list" where
  "ws_step (EvInit supported h now) s = snd (ws_init supported h now s)"
| "ws_step (EvUpdate now h now') s = ws_update now h now' s"
| "ws_step (EvSend data) s = ws_send data s"
| "ws_step (EvSetOnReceive cb) s = (ws_setOnReceive cb s, [])"
| "ws_step EvOpen s = onOpen s"
| "ws_step (EvMessage isText payload) s = onMessage isText payload s"
| "ws_step (EvClose now) s = onClose now s"
| "ws_step EvError s = onError s"

fun ws_run :: "ws_event list \<Rightarrow> WebSocketTransport \<Rightarrow> WebSocketTransport \<times> ws_call list" where
  "ws_run [] s = (s, [])"
| "ws_run (e # es) s =
     (let (s1, c1) = ws_step e s; (s2, c2) = ws_run es s1 in (s2, c1 @ c2))"

text \<open>A connect attempt is a call of \<open>emscripten_websocket_new\<close>.\<close>

fun is_connect_attempt :: "ws_call \<Rightarrow> bool" where
  "is_connect_attempt (WsNew u) = True"
| "is_connect_attempt c = False"

definition connect_attempts :: "ws_call list \<Rightarrow> nat" where
  "connect_attempts cs = length (filter is_connect_attempt cs)"

fun is_init :: "ws_event \<Rightarrow> bool" where
  "is_init (EvInit supported h now) = True"
| "is_init e = False"

section \<open>UdpTransport\<close>

text \<open>The POSIX branch of the conditional compilation is the one modelled.\<close>

record UdpConfig =
  host :: string
  port :: u16
  recvBufferSize :: nat

definition default_UdpConfig :: UdpConfig where
  "default_UdpConfig = \<lparr>host = ''127.0.0.1'', port = 9001, recvBufferSize = 4096\<rparr>"

record sockaddr_in =
  sin_family :: nat
  sin_port :: u16
  sin_addr :: u32

definition AF_INET :: nat where
  "AF_INET = 2"

text \<open>\<open>htons\<close> on a little-endian host: the two bytes change places.\<close>

definition htons :: "u16 \<Rightarrow> u16" where
  "htons p = or (push_bit 8 p) (drop_bit 8 p)"

record UdpTransport =
  udp_config :: UdpConfig
  udp_onReceive :: "ReceiveCallback option"
  initialized :: bool
  udp_socket :: int
  destAddr :: sockaddr_in
  recvBuffer :: "u8 list"

text \<open>The system calls the transport makes, and the invocations of the callback.\<close>

datatype udp_call =
    SysSocket
  | SysFcntlGetfl int
  | SysFcntlSetNonblock int
  | SysBind int
  | SysInetPton string
  | SysClose int
  | SysSendTo int frame sockaddr_in
  | SysRecvFrom int nat
  | UdpDeliver ReceiveCallback frame

text \<open>
  The constructor. \<open>destAddr_\<close> has no initialiser: it starts with whatever the memory
  holds, the parameter \<open>junk\<close>. \<open>resize\<close> fills the receive buffer with zero bytes.
\<close>

definition new_UdpTransport :: "UdpConfig \<Rightarrow> sockaddr_in \<Rightarrow> UdpTransport" where
  "new_UdpTransport config junk =
     \<lparr>udp_config = config, udp_onReceive = None, initialized = False, udp_socket = - 1,
      destAddr = junk, recvBuffer = replicate (recvBufferSize config) 0\<rparr>"

definition cleanup :: "UdpTransport \<Rightarrow> UdpTransport \<times> udp_call list" where
  "cleanup s =
     (if udp_socket s \<ge> 0
      then (s\<lparr>udp_socket := - 1, initialized := False\<rparr>, [SysClose (udp_socket s)])
      else (s\<lparr>initialized := False\<rparr>, []))"

text \<open>
  What the operating system answers during \<open>init\<close>: the results of \<open>socket\<close>, of the two
  \<open>fcntl\<close> calls and of \<open>bind\<close>, and the address \<open>inet_pton\<close> writes (\<open>None\<close> when it
  rejects the host string and writes nothing).
\<close>

record udp_init_env =
  socket_ret :: int
  getfl_ret :: int
  setfl_ret :: int
  bind_ret :: int
  pton_addr :: "u32 option"

definition udp_init :: "udp_init_env \<Rightarrow> UdpTransport \<Rightarrow> Result_void \<times> UdpTransport \<times> udp_call list" where
  "udp_init env s =
     (if initialized s then (Inr (), s, [])
      else
        (let fd = socket_ret env; s1 = s\<lparr>udp_socket := fd\<rparr> in
         if fd < 0 then (Inl HARDWARE_INIT_FAILED, s1, [SysSocket])
         else if getfl_ret env < 0 then
           (let (s2, c) = cleanup s1
            in (Inl HARDWARE_INIT_FAILED, s2, [SysSocket, SysFcntlGetfl fd] @ c))
         else if setfl_ret env < 0 then
           (let (s2, c) = cleanup s1
            in (Inl HARDWARE_INIT_FAILED, s2,
                [SysSocket, SysFcntlGetfl fd, SysFcntlSetNonblock fd] @ c))
         else if bind_ret env < 0 then
           (let (s2, c) = cleanup s1
            in (Inl HARDWARE_INIT_FAILED, s2,
                [SysSocket, SysFcntlGetfl fd, SysFcntlSetNonblock fd, SysBind fd] @ c))
         else
           (Inr (),
            s1\<lparr>destAddr := \<lparr>sin_family = AF_INET, sin_port = htons (port (udp_config s)),
                           sin_addr = (case pton_addr env of Some a \<Rightarrow> a | None \<Rightarrow> 0)\<rparr>,
               initialized := True\<rparr>,
            [SysSocket, SysFcntlGetfl fd, SysFcntlSetNonblock fd, SysBind fd,
             SysInetPton (host (udp_config s))])))"

text \<open>
  What a receive attempt finds, and \<open>recvfrom\<close> on a non-blocking datagram socket with a
  buffer of \<open>cap\<close> bytes, by its POSIX contract: the count it returns and the bytes it
  writes. With nothing queued, or on an error, it returns \<open>-1\<close> and writes nothing; a
  datagram is consumed whole, and the bytes beyond the buffer are discarded.
\<close>

datatype recv_outcome = WouldBlock | RecvFailed | Datagram frame

fun recvfrom :: "nat \<Rightarrow> recv_outcome \<Rightarrow> int \<times> frame" where
  "recvfrom cap (Datagram d) = (int (min (length d) cap), take cap d)"
| "recvfrom cap WouldBlock = (- 1, [])"
| "recvfrom cap RecvFailed = (- 1, [])"

definition udp_update :: "recv_outcome \<Rightarrow> UdpTransport \<Rightarrow> UdpTransport \<times> udp_call list" where
  "udp_update r s =
     (if \<not> initialized s \<or> udp_onReceive s = None then (s, [])
      else
        (let (bytesReceived, written) = recvfrom (length (recvBuffer s)) r;
             buf = written @ drop (length written) (recvBuffer s);
             s1 = s\<lparr>recvBuffer := buf\<rparr>;
             attempt = SysRecvFrom (udp_socket s) (length (recvBuffer s))
         in if bytesReceived > 0
            then (s1, attempt #
                   (case udp_onReceive s of
                      Some cb \<Rightarrow> [UdpDeliver cb (take (nat bytesReceived) buf)]
                    | None \<Rightarrow> []))
            else (s1, [attempt])))"

text \<open>The result of \<open>sendto\<close> only selects a log line.\<close>

definition udp_send :: "frame \<Rightarrow> UdpTransport \<Rightarrow> UdpTransport \<times> udp_call list" where
  "udp_send data s =
     (if \<not> initialized s then (s, [])
      else (s, [SysSendTo (udp_socket s) data (destAddr s)]))"

definition udp_setOnReceive :: "ReceiveCallback option \<Rightarrow> UdpTransport \<Rightarrow> UdpTransport" where
  "udp_setOnReceive cb s = s\<lparr>udp_onReceive := cb\<rparr>"

definition udp_isReady :: "UdpTransport \<Rightarrow> bool" where
  "udp_isReady s = initialized s"

subsection \<open>Moves\<close>

text \<open>
  A moved-from \<open>std::string\<close>, \<open>std::function\<close> or (after move assignment)
  \<open>std::vector\<close> holds a valid value that the standard does not fix: the parameter
  \<open>r\<close> supplies it. \<open>port\<close> and \<open>recvBufferSize\<close> are copied. After move construction
  the source vector is empty.
\<close>

record moved_from =
  mf_host :: string
  mf_onReceive :: "ReceiveCallback option"
  mf_recvBuffer :: "u8 list"

text \<open>The move constructor returns the new object and what is left of \<open>other\<close>.\<close>

definition udp_move_construct :: "moved_from \<Rightarrow> UdpTransport \<Rightarrow> UdpTransport \<times> UdpTransport" where
  "udp_move_construct r other =
     (\<lparr>udp_config = udp_config other, udp_onReceive = udp_onReceive other,
       initialized = initialized other, udp_socket = udp_socket other,
       destAddr = destAddr other, recvBuffer = recvBuffer other\<rparr>,
      other\<lparr>udp_config := (udp_config other)\<lparr>host := mf_host r\<rparr>,
            udp_onReceive := mf_onReceive r,
            recvBuffer := [],
            udp_socket := - 1,
            initialized := False\<rparr>)"

text \<open>
  Move assignment compares the addresses of the two objects, so it works on a store of
  objects: \<open>this\<close> and \<open>other\<close> are addresses.
\<close>

type_synonym udp_store = "nat \<Rightarrow> UdpTransport"

definition udp_move_assign ::
  "moved_from \<Rightarrow> nat \<Rightarrow> nat \<Rightarrow> udp_store \<Rightarrow> udp_store \<times> udp_call list" where
  "udp_move_assign r this other st =
     (if this \<noteq> other then
        (let (d, c) = cleanup (st this);
             src = st other;
             d1 = d\<lparr>udp_config := udp_config src, udp_onReceive := udp_onReceive src,
                    initialized := initialized src, udp_socket := udp_socket src,
                    destAddr := destAddr src, recvBuffer := recvBuffer src\<rparr>;
             src1 = src\<lparr>udp_config := (udp_config src)\<lparr>host := mf_host r\<rparr>,
                        udp_onReceive := mf_onReceive r,
                        recvBuffer := mf_recvBuffer r,
                        udp_socket := - 1,
                        initialized := False\<rparr>
         in (st(this := d1, other := src1), c))
      else (st, []))"

section \<open>Notions used in the statements\<close>

text \<open>
  The bounded FIFO of the specification: with capacity \<open>c > 0\<close> only the \<open>c\<close> newest
  entries stay, in their order; capacity 0 keeps everything.
\<close>

definition keep_last :: "nat \<Rightarrow> 'a list \<Rightarrow> 'a list" where
  "keep_last c xs = (if c = 0 then xs else drop (length xs - c) xs)"

text \<open>The pending buffer respects the configured capacity (0 means no bound).\<close>

definition within_capacity :: "WebSocketTransport \<Rightarrow> bool" where
  "within_capacity s =
     (maxPendingMessages (ws_config s) = 0
      \<or> length (pendingMessages s) \<le> maxPendingMessages (ws_config s))"

text \<open>
  When the reconnect timer is restarted, read off the history of calls and events: by a
  close event (with \<open>autoReconnect\<close> enabled), by an \<open>update\<close> that makes a connect
  attempt, and by an \<open>init\<close> whose handle creation fails (again with \<open>autoReconnect\<close>
  enabled). \<open>timer_start\<close> is the time of the latest such restart in a history, and
  the given time when there is none.
\<close>

fun timer_mark :: "ws_event \<Rightarrow> WebSocketTransport \<Rightarrow> u32 option" where
  "timer_mark (EvClose now) s = (if autoReconnect (ws_config s) then Some now else None)"
| "timer_mark (EvUpdate now h now') s =
     (if 0 < connect_attempts (snd (ws_update now h now' s)) then Some now else None)"
| "timer_mark (EvInit supported h now) s =
     (if supported \<and> h \<le> 0 \<and> autoReconnect (ws_config s) then Some now else None)"
| "timer_mark e s = None"

fun timer_start :: "ws_event list \<Rightarrow> WebSocketTransport \<Rightarrow> u32 \<Rightarrow> u32" where
  "timer_start [] s t = t"
| "timer_start (e # es) s t =
     timer_start es (fst (ws_step e s)) (case timer_mark e s of Some t' \<Rightarrow> t' | None \<Rightarrow> t)"

text \<open>
  The time of the latest connect attempt in a history (the clock reading during the
  \<open>init\<close> or \<open>update\<close> that called \<open>emscripten_websocket_new\<close>), if there was one.
\<close>

fun event_time :: "ws_event \<Rightarrow> u32" where
  "event_time (EvInit supported h now) = now"
| "event_time (EvUpdate now h now') = now"
| "event_time (EvClose now) = now"
| "event_time e = 0"

fun last_attempt_at :: "ws_event list \<Rightarrow> WebSocketTransport \<Rightarrow> u32 option \<Rightarrow> u32 option" where
  "last_attempt_at [] s t = t"
| "last_attempt_at (e # es) s t =
     last_attempt_at es (fst (ws_step e s))
       (if 0 < connect_attempts (snd (ws_step e s)) then Some (event_time e) else t)"

fun is_recv_attempt :: "udp_call \<Rightarrow> bool" where
  "is_recv_attempt (SysRecvFrom fd cap) = True"
| "is_recv_attempt c = False"

subsection \<open>Concrete configurations and states\<close>

definition backoff_config :: WebSocketConfig where
  "backoff_config =
     default_WebSocketConfig\<lparr>reconnectDelayMs := 1000, reconnectMaxDelayMs := 8000\<rparr>"

definition ws_after_init :: WebSocketTransport where
  "ws_after_init = fst (snd (ws_init True 1 0 (new_WebSocketTransport default_WebSocketConfig)))"

definition ws_open :: WebSocketTransport where
  "ws_open = fst (onOpen ws_after_init)"

definition ws_closed :: WebSocketTransport where
  "ws_closed = fst (onClose 500 ws_open)"

definition closed_history :: "ws_event list" where
  "closed_history = [EvInit True 1 0, EvClose 1500]"

definition retried_history :: "ws_event list" where
  "retried_history = [EvInit True 1 0, EvClose 1500, EvUpdate 3500 0 3500]"

definition quiet_events :: "ws_event list" where
  "quiet_events = [EvClose 10, EvError, EvUpdate 4000000 2 4000000, EvSend [1]]"

definition ws_no_reconnect :: WebSocketTransport where
  "ws_no_reconnect =
     (new_WebSocketTransport (default_WebSocketConfig\<lparr>autoReconnect := False\<rparr>))
       \<lparr>ws_socket := 1, ws_state := Connected\<rparr>"

definition ws_capacity_two :: WebSocketTransport where
  "ws_capacity_two =
     new_WebSocketTransport (default_WebSocketConfig\<lparr>maxPendingMessages := 2\<rparr>)"

definition ws_full_two :: WebSocketTransport where
  "ws_full_two = ws_capacity_two\<lparr>pendingMessages := [[65], [66]]\<rparr>"

definition ws_unbounded :: WebSocketTransport where
  "ws_unbounded =
     new_WebSocketTransport (default_WebSocketConfig\<lparr>maxPendingMessages := 0\<rparr>)"

text \<open>
  An environment in which \<open>init\<close> succeeds; \<open>inet_pton\<close> writes the bytes 127, 0, 0, 1,
  which a little-endian host reads as 16777343.
\<close>

definition init_ok_env :: udp_init_env where
  "init_ok_env =
     \<lparr>socket_ret = 3, getfl_ret = 2, setfl_ret = 0, bind_ret = 0,
      pton_addr = Some 16777343\<rparr>"

definition init_bind_fails_env :: udp_init_env where
  "init_bind_fails_env = init_ok_env\<lparr>bind_ret := - 1\<rparr>"

definition junk_addr :: sockaddr_in where
  "junk_addr = \<lparr>sin_family = 0, sin_port = 0, sin_addr = 0\<rparr>"

definition fresh_udp :: UdpTransport where
  "fresh_udp = new_UdpTransport default_UdpConfig junk_addr"

definition ready_udp :: UdpTransport where
  "ready_udp = fst (snd (udp_init init_ok_env fresh_udp))"

definition listening_udp :: UdpTransport where
  "listening_udp = udp_setOnReceive (Some 7) ready_udp"

definition residue :: moved_from where
  "residue = \<lparr>mf_host = [], mf_onReceive = None, mf_recvBuffer = []\<rparr>"

definition two_objects :: udp_store where
  "two_objects = (\<lambda>a. if a = 20 then listening_udp else fresh_udp)"

section \<open>Auxiliary facts\<close>

lemmas ws_defs =
  ws_init_def ws_update_def ws_send_def ws_setOnReceive_def onOpen_def
  flushPendingMessages_def onMessage_def onClose_def onError_def scheduleReconnect_def
  connect_def new_WebSocketTransport_def default_WebSocketConfig_def

lemma unat_min_word: "unat (min a b) = min (unat a) (unat (b :: 'a::len word))"
  by (simp add: min_def word_le_nat_alt)

lemma ws_send_state: "ws_state (fst (ws_send d s)) = ws_state s"
  by (simp add: ws_send_def)

lemma ws_send_config: "ws_config (fst (ws_send d s)) = ws_config s"
  by (simp add: ws_send_def)

lemma keep_last_length: "0 < c \<Longrightarrow> length (keep_last c xs) \<le> c"
  by (simp add: keep_last_def)

lemma keep_last_snoc:
  assumes "c = 0 \<or> length xs \<le> c"
  shows "keep_last c (keep_last c (xs @ [d]) @ ds) = keep_last c (xs @ d # ds)"
proof (cases "c = 0 \<or> length xs < c")
  case True
  then show ?thesis by (auto simp: keep_last_def)
next
  case False
  with assms have "length xs = c" and "0 < c" by auto
  then show ?thesis by (cases xs) (auto simp: keep_last_def)
qed

lemma ws_send_pending:
  assumes "ws_state s \<noteq> Connected"
    and "maxPendingMessages (ws_config s) = 0
         \<or> length (pendingMessages s) \<le> maxPendingMessages (ws_config s)"
  shows "pendingMessages (fst (ws_send d s)) =
           keep_last (maxPendingMessages (ws_config s)) (pendingMessages s @ [d])"
  using assms
  by (cases "pendingMessages s") (auto simp: ws_send_def keep_last_def Suc_diff_le)

lemma ws_run_sends:
  assumes "ws_state s \<noteq> Connected"
    and "maxPendingMessages (ws_config s) = 0
         \<or> length (pendingMessages s) \<le> maxPendingMessages (ws_config s)"
  shows "pendingMessages (fst (ws_run (map EvSend ds) s)) =
           keep_last (maxPendingMessages (ws_config s)) (pendingMessages s @ ds)"
  using assms
proof (induction ds arbitrary: s)
  case Nil
  then show ?case by (auto simp: keep_last_def)
next
  case (Cons d ds)
  let ?s1 = "fst (ws_send d s)"
  have st: "ws_state ?s1 \<noteq> Connected"
    using Cons.prems(1) by (simp add: ws_send_state)
  have p1: "pendingMessages ?s1 =
              keep_last (maxPendingMessages (ws_config s)) (pendingMessages s @ [d])"
    using Cons.prems by (rule ws_send_pending)
  have cap: "maxPendingMessages (ws_config ?s1) = 0
             \<or> length (pendingMessages ?s1) \<le> maxPendingMessages (ws_config ?s1)"
    using keep_last_length [of "maxPendingMessages (ws_config s)"]
    by (auto simp: p1 ws_send_config)
  from Cons.IH [OF st cap] show ?case
    using Cons.prems(2) by (simp add: split_beta p1 ws_send_config keep_last_snoc)
qed

lemma connect_config: "ws_config (fst (connect h t s)) = ws_config s"
  by (simp add: connect_def scheduleReconnect_def Let_def)

lemma connect_pending: "pendingMessages (fst (connect h t s)) = pendingMessages s"
  by (simp add: connect_def scheduleReconnect_def Let_def)

lemma ws_step_config: "ws_config (fst (ws_step e s)) = ws_config s"
  by (cases e)
    (simp_all add: ws_init_def ws_update_def ws_send_def ws_setOnReceive_def onOpen_def
      flushPendingMessages_def onMessage_def onClose_def onError_def scheduleReconnect_def
      connect_config split_beta split: option.split)

lemma ws_run_config: "ws_config (fst (ws_run es s)) = ws_config s"
  by (induction es arbitrary: s) (simp_all add: split_beta ws_step_config)

lemma ws_send_within: "within_capacity s \<Longrightarrow> within_capacity (fst (ws_send d s))"
  by (auto simp: within_capacity_def ws_send_def)

lemma ws_step_within:
  assumes "within_capacity s"
  shows "within_capacity (fst (ws_step e s))"
proof (cases e)
  case (EvSend d)
  then show ?thesis using assms by (simp add: ws_send_within)
next
  case EvOpen
  then show ?thesis
    by (simp add: within_capacity_def onOpen_def flushPendingMessages_def)
qed (use assms in \<open>simp_all add: within_capacity_def ws_init_def ws_update_def
      ws_setOnReceive_def onMessage_def onClose_def onError_def scheduleReconnect_def
      connect_config connect_pending split_beta split: option.split\<close>)

lemma ws_run_within:
  "within_capacity s \<Longrightarrow> within_capacity (fst (ws_run es s))"
proof (induction es arbitrary: s)
  case Nil
  then show ?case by simp
next
  case (Cons e es)
  from Cons.IH [OF ws_step_within [OF Cons.prems, of e]]
  show ?case by (simp add: split_beta)
qed

lemma reachable_within_capacity:
  assumes pos: "0 < maxPendingMessages cfg"
  shows "length (pendingMessages (fst (ws_run es (new_WebSocketTransport cfg))))
           \<le> maxPendingMessages cfg"
proof -
  have "within_capacity (new_WebSocketTransport cfg)"
    by (simp add: within_capacity_def new_WebSocketTransport_def)
  then have "within_capacity (fst (ws_run es (new_WebSocketTransport cfg)))"
    by (rule ws_run_within)
  moreover have "ws_config (fst (ws_run es (new_WebSocketTransport cfg))) = cfg"
    by (simp add: ws_run_config new_WebSocketTransport_def)
  ultimately show ?thesis using pos by (simp add: within_capacity_def)
qed

lemma no_attempt_in_flush: "filter is_connect_attempt (map (WsSendBinary h) fs) = []"
  by (induction fs) simp_all

lemma connect_attempts_append:
  "connect_attempts (a @ b) = connect_attempts a + connect_attempts b"
  by (simp add: connect_attempts_def)

lemma connect_one_attempt: "connect_attempts (snd (connect h t s)) = 1"
  by (simp add: connect_def connect_attempts_def Let_def)

lemma ws_step_no_connect:
  assumes "\<not> autoReconnect (ws_config s)" and "\<not> is_init e"
  shows "connect_attempts (snd (ws_step e s)) = 0"
  using assms
  by (cases e)
    (simp_all add: connect_attempts_def ws_update_def ws_send_def onOpen_def
      flushPendingMessages_def onMessage_def onClose_def onError_def no_attempt_in_flush
      split: option.split)

lemma ws_run_no_connect:
  assumes "\<not> autoReconnect (ws_config s)" and "list_all (\<lambda>e. \<not> is_init e) es"
  shows "connect_attempts (snd (ws_run es s)) = 0"
  using assms
proof (induction es arbitrary: s)
  case Nil
  show ?case by (simp add: connect_attempts_def)
next
  case (Cons e es)
  have cfg: "\<not> autoReconnect (ws_config (fst (ws_step e s)))"
    using Cons.prems(1) by (simp add: ws_step_config)
  have rest: "connect_attempts (snd (ws_run es (fst (ws_step e s)))) = 0"
    using Cons.IH [OF cfg] Cons.prems(2) by simp
  have first: "connect_attempts (snd (ws_step e s)) = 0"
    using Cons.prems by (simp add: ws_step_no_connect)
  show ?case
    by (simp add: split_beta connect_attempts_append first rest)
qed

lemma ws_update_attempts:
  assumes "autoReconnect (ws_config s)"
  shows "connect_attempts (snd (ws_update now h now' s)) =
           (if ws_state s = Disconnected \<and> currentDelayMs s \<le> now - lastAttemptMs s
            then 1 else 0)"
  using assms
  by (simp add: ws_update_def split_beta connect_one_attempt) (simp add: connect_attempts_def)

lemma ws_capacity_two_fields:
  "ws_state ws_capacity_two = Disconnected" "pendingMessages ws_capacity_two = []"
  "maxPendingMessages (ws_config ws_capacity_two) = 2"
  "ws_state ws_full_two = Disconnected" "pendingMessages ws_full_two = [[65], [66]]"
  "maxPendingMessages (ws_config ws_full_two) = 2"
  "ws_state ws_unbounded = Disconnected" "pendingMessages ws_unbounded = []"
  "maxPendingMessages (ws_config ws_unbounded) = 0"
  by (simp_all add: ws_capacity_two_def ws_full_two_def ws_unbounded_def
      new_WebSocketTransport_def default_WebSocketConfig_def)

lemma ws_closed_fields:
  "autoReconnect (ws_config ws_closed)" "ws_state ws_closed = Disconnected"
  "currentDelayMs ws_closed = 2000" "lastAttemptMs ws_closed = 500"
  by (simp_all add: ws_closed_def ws_open_def ws_after_init_def ws_defs Let_def)

lemma ws_no_reconnect_fields:
  "\<not> autoReconnect (ws_config ws_no_reconnect)"
  by (simp add: ws_no_reconnect_def new_WebSocketTransport_def default_WebSocketConfig_def)

lemma connect_lastAttempt:
  "lastAttemptMs (fst (connect h t s)) =
     (if h \<le> 0 \<and> autoReconnect (ws_config s) then t else lastAttemptMs s)"
  by (simp add: connect_def scheduleReconnect_def Let_def)

lemma ws_update_records:
  "lastAttemptMs (fst (ws_update now h now' s)) =
     (if 0 < connect_attempts (snd (ws_update now h now' s)) then now else lastAttemptMs s)"
  by (simp add: ws_update_def split_beta connect_one_attempt) (simp add: connect_attempts_def)

lemma ws_step_timer:
  "lastAttemptMs (fst (ws_step e s)) =
     (case timer_mark e s of Some t \<Rightarrow> t | None \<Rightarrow> lastAttemptMs s)"
proof (cases e)
  case (EvInit supported h now)
  then show ?thesis by (simp add: ws_init_def connect_lastAttempt)
next
  case (EvUpdate now h now')
  then show ?thesis by (simp add: ws_update_records)
next
  case (EvClose now)
  then show ?thesis by (simp add: onClose_def scheduleReconnect_def)
qed (simp_all add: ws_send_def ws_setOnReceive_def onOpen_def flushPendingMessages_def
      onMessage_def onError_def split: option.split)

lemma ws_run_timer:
  "lastAttemptMs (fst (ws_run es s)) = timer_start es s (lastAttemptMs s)"
proof (induction es arbitrary: s)
  case Nil
  show ?case by simp
next
  case (Cons e es)
  have "lastAttemptMs (fst (ws_run (e # es) s)) = lastAttemptMs (fst (ws_run es (fst (ws_step e s))))"
    by (simp add: split_beta)
  also have "\<dots> = timer_start es (fst (ws_step e s)) (lastAttemptMs (fst (ws_step e s)))"
    by (rule Cons.IH)
  also have "\<dots> = timer_start (e # es) s (lastAttemptMs s)"
    by (simp add: ws_step_timer)
  finally show ?case .
qed

lemma closed_history_facts:
  "ws_state (fst (ws_run closed_history (new_WebSocketTransport default_WebSocketConfig))) = Disconnected"
  "currentDelayMs (fst (ws_run closed_history (new_WebSocketTransport default_WebSocketConfig))) = 2000"
  "timer_start closed_history (new_WebSocketTransport default_WebSocketConfig) 0 = 1500"
  "last_attempt_at closed_history (new_WebSocketTransport default_WebSocketConfig) None = Some 0"
  "autoReconnect default_WebSocketConfig"
  by (simp_all add: closed_history_def ws_defs connect_attempts_def Let_def)

lemma retried_history_facts:
  "ws_state (fst (ws_run retried_history (new_WebSocketTransport default_WebSocketConfig))) = Disconnected"
  "currentDelayMs (fst (ws_run retried_history (new_WebSocketTransport default_WebSocketConfig))) = 4000"
  "timer_start retried_history (new_WebSocketTransport default_WebSocketConfig) 0 = 3500"
  "last_attempt_at retried_history (new_WebSocketTransport default_WebSocketConfig) None = Some 3500"
  by (simp_all add: retried_history_def ws_defs connect_attempts_def Let_def)

lemma quiet_events_no_init: "list_all (\<lambda>e. \<not> is_init e) quiet_events"
  by (simp add: quiet_events_def)

lemma ws_open_fields:
  "autoReconnect (ws_config ws_open)" "ws_state ws_open = Connected"
  by (simp_all add: ws_open_def ws_after_init_def ws_defs Let_def)

lemma udp_init_idempotent: "initialized s \<Longrightarrow> udp_init env s = (Inr (), s, [])"
  by (simp add: udp_init_def)

lemma ready_udp_fields:
  "initialized ready_udp" "udp_socket ready_udp = 3" "length (recvBuffer ready_udp) = 4096"
  "udp_onReceive ready_udp = None"
  by (simp_all add: ready_udp_def fresh_udp_def udp_init_def init_ok_env_def
      new_UdpTransport_def default_UdpConfig_def Let_def)

lemma listening_udp_fields:
  "initialized listening_udp" "udp_socket listening_udp = 3"
  "length (recvBuffer listening_udp) = 4096" "udp_onReceive listening_udp = Some 7"
  by (simp_all add: listening_udp_def udp_setOnReceive_def ready_udp_fields)

section \<open>Socket-Stream Channel: reconnection\<close>

text \<open>
  C1. With \<open>reconnectDelayMs = 1000\<close> and \<open>reconnectMaxDelayMs = 8000\<close>, the claim
  expects the delays 1000, 2000, 4000 before attempts 2, 3 and 4. Evaluated on the
  code, \<open>init\<close> followed by three failed attempts (each closed by the browser, or each
  refused by \<open>emscripten_websocket_new\<close>) schedules 2000, 4000, 8000: the delay is
  doubled before its first use, so the configured initial delay is never waited and the
  cap is reached at attempt 4. An \<open>update\<close> 1000 ms after the first failure makes no
  attempt; the one 2000 ms after it does.
\<close>

theorem backoff_scenario_delays:
  "map (\<lambda>es. currentDelayMs (fst (ws_run es (new_WebSocketTransport backoff_config))))
     [[EvInit True 1 0, EvClose 100],
      [EvInit True 1 0, EvClose 100, EvUpdate 2100 2 2100, EvClose 2200],
      [EvInit True 1 0, EvClose 100, EvUpdate 2100 2 2100, EvClose 2200,
       EvUpdate 6200 3 6200, EvClose 6300]]
     = [2000, 4000, 8000]
   \<and> map (\<lambda>es. currentDelayMs (fst (ws_run es (new_WebSocketTransport backoff_config))))
     [[EvInit True 0 100],
      [EvInit True 0 100, EvUpdate 2100 0 2100],
      [EvInit True 0 100, EvUpdate 2100 0 2100, EvUpdate 6100 0 6100]]
     = [2000, 4000, 8000]
   \<and> connect_attempts (snd (ws_run [EvInit True 1 0, EvClose 100, EvUpdate 1100 2 1100]
        (new_WebSocketTransport backoff_config))) = 1
   \<and> connect_attempts (snd (ws_run [EvInit True 1 0, EvClose 100, EvUpdate 2100 2 2100]
        (new_WebSocketTransport backoff_config))) = 2"
  by (simp add: ws_defs backoff_config_def connect_attempts_def Let_def)

section \<open>Repeated initialisation\<close>

text \<open>
  C2. The claim wants a second \<open>init\<close> to be a no-op on both channels. The Datagram
  Channel returns at its \<open>initialized_\<close> guard and makes no system call. The
  Socket-Stream Channel has no such guard: evaluated on the code, a second \<open>init\<close>
  deletes handle 1 and creates a new connection handle, and when the first connection
  was already open the channel falls back from Connected to Connecting.
\<close>

theorem ws_second_init_reconnects:
  "ws_socket ws_after_init = 1
   \<and> ws_init True 2 0 ws_after_init
       = (Inr (), ws_after_init\<lparr>ws_socket := 2\<rparr>,
          [WsDelete 1, WsNew ''ws://127.0.0.1:9002'', WsSetCallbacks 2])
   \<and> ws_isReady ws_open
   \<and> \<not> ws_isReady (fst (snd (ws_init True 2 0 ws_open)))
   \<and> connect_attempts (snd (snd (ws_init True 2 0 ws_open))) = 1
   \<and> udp_init init_ok_env ready_udp = (Inr (), ready_udp, [])"
  by (simp add: ws_after_init_def ws_open_def ws_isReady_def ws_defs connect_attempts_def
      Let_def udp_init_idempotent ready_udp_fields)

section \<open>Send while not connected\<close>

text \<open>
  C3. A \<open>send\<close> made while the state is not Connected transmits nothing and changes
  only the pending buffer, whose last entry is then the frame. With capacity 0, or with
  room left, the frame is appended; with capacity \<open>C > 0\<close> and \<open>C\<close> entries held, the
  oldest is dropped first. A buffer within capacity stays within it, and after any
  sequence of such sends it holds the newest \<open>C\<close> of the old entries and the new frames,
  in order (all of them when \<open>C = 0\<close>). Every state reached from a constructed
  transport keeps at most \<open>C\<close> entries.
\<close>

theorem ws_send_while_disconnected_buffers:
  assumes "ws_state s \<noteq> Connected"
  shows "snd (ws_send d s) = []
   \<and> (fst (ws_send d s))\<lparr>pendingMessages := pendingMessages s\<rparr> = s
   \<and> last (pendingMessages (fst (ws_send d s))) = d
   \<and> (maxPendingMessages (ws_config s) = 0 \<longrightarrow>
        pendingMessages (fst (ws_send d s)) = pendingMessages s @ [d])
   \<and> (length (pendingMessages s) < maxPendingMessages (ws_config s) \<longrightarrow>
        pendingMessages (fst (ws_send d s)) = pendingMessages s @ [d])
   \<and> (0 < maxPendingMessages (ws_config s)
        \<and> length (pendingMessages s) = maxPendingMessages (ws_config s) \<longrightarrow>
        pendingMessages (fst (ws_send d s)) = tl (pendingMessages s) @ [d])
   \<and> (0 < maxPendingMessages (ws_config s)
        \<and> length (pendingMessages s) \<le> maxPendingMessages (ws_config s) \<longrightarrow>
        length (pendingMessages (fst (ws_send d s))) \<le> maxPendingMessages (ws_config s))
   \<and> (maxPendingMessages (ws_config s) = 0
        \<or> length (pendingMessages s) \<le> maxPendingMessages (ws_config s) \<longrightarrow>
        pendingMessages (fst (ws_run (map EvSend ds) s))
          = keep_last (maxPendingMessages (ws_config s)) (pendingMessages s @ ds))
   \<and> (0 < maxPendingMessages cfg \<longrightarrow>
        length (pendingMessages (fst (ws_run es (new_WebSocketTransport cfg))))
          \<le> maxPendingMessages cfg)"
proof -
  have one: "snd (ws_send d s) = []
     \<and> (fst (ws_send d s))\<lparr>pendingMessages := pendingMessages s\<rparr> = s
     \<and> last (pendingMessages (fst (ws_send d s))) = d"
    using assms by (simp add: ws_send_def)
  have branches: "(maxPendingMessages (ws_config s) = 0 \<longrightarrow>
        pendingMessages (fst (ws_send d s)) = pendingMessages s @ [d])
   \<and> (length (pendingMessages s) < maxPendingMessages (ws_config s) \<longrightarrow>
        pendingMessages (fst (ws_send d s)) = pendingMessages s @ [d])
   \<and> (0 < maxPendingMessages (ws_config s)
        \<and> length (pendingMessages s) = maxPendingMessages (ws_config s) \<longrightarrow>
        pendingMessages (fst (ws_send d s)) = tl (pendingMessages s) @ [d])"
    using assms by (simp add: ws_send_def)
  have bound: "0 < maxPendingMessages (ws_config s)
        \<and> length (pendingMessages s) \<le> maxPendingMessages (ws_config s) \<longrightarrow>
        length (pendingMessages (fst (ws_send d s))) \<le> maxPendingMessages (ws_config s)"
    using assms by (auto simp: ws_send_def)
  show ?thesis
    using one branches bound ws_run_sends [OF assms] reachable_within_capacity
    by blast
qed

theorem ws_send_while_disconnected_buffers_witness:
  "ws_state ws_capacity_two \<noteq> Connected
   \<and> pendingMessages (fst (ws_run (map EvSend [[65], [66], [67]]) ws_capacity_two))
       = [[66], [67]]
   \<and> ws_state ws_full_two \<noteq> Connected
   \<and> length (pendingMessages ws_full_two) = maxPendingMessages (ws_config ws_full_two)
   \<and> pendingMessages (fst (ws_send [67] ws_full_two)) = [[66], [67]]
   \<and> snd (ws_send [67] ws_full_two) = []
   \<and> ws_state ws_unbounded \<noteq> Connected
   \<and> maxPendingMessages (ws_config ws_unbounded) = 0
   \<and> pendingMessages (fst (ws_run (map EvSend [[65], [66], [67]]) ws_unbounded))
       = [[65], [66], [67]]
   \<and> length (pendingMessages (fst (ws_run
        [EvSend [65], EvClose 9, EvSend [66], EvSend [67]]
        (new_WebSocketTransport (default_WebSocketConfig\<lparr>maxPendingMessages := 2\<rparr>))))) \<le> 2"
proof -
  have two: "ws_state ws_capacity_two \<noteq> Connected"
    and full: "ws_state ws_full_two \<noteq> Connected"
    and unb: "ws_state ws_unbounded \<noteq> Connected"
    by (simp_all add: ws_capacity_two_fields)
  have pos: "0 < maxPendingMessages (default_WebSocketConfig\<lparr>maxPendingMessages := 2\<rparr>)"
    by simp
  show ?thesis
    using
      ws_send_while_disconnected_buffers
        [OF two, of "[67]" "[[65], [66], [67]]"
          "default_WebSocketConfig\<lparr>maxPendingMessages := 2\<rparr>"
          "[EvSend [65], EvClose 9, EvSend [66], EvSend [67]]"]
      ws_send_while_disconnected_buffers [OF full, of "[67]"]
      ws_send_while_disconnected_buffers [OF unb, of "[67]" "[[65], [66], [67]]"]
      pos
    by (simp add: ws_capacity_two_fields keep_last_def)
qed

section \<open>Open event\<close>

text \<open>
  C4. For every state of the Socket-Stream Channel, the open event makes the state
  Connected, resets the backoff delay to the configured \<open>reconnectDelayMs\<close> and the
  attempt counter to 0, hands every buffered frame to the socket oldest first (and
  makes no other call), and leaves the pending buffer empty; the configuration, the
  handle, the callback and the time of the last attempt stay as they were.
\<close>

theorem onOpen_resets_and_flushes:
  "ws_state (fst (onOpen s)) = Connected
   \<and> currentDelayMs (fst (onOpen s)) = reconnectDelayMs (ws_config s)
   \<and> reconnectAttempts (fst (onOpen s)) = 0
   \<and> snd (onOpen s) = map (WsSendBinary (ws_socket s)) (pendingMessages s)
   \<and> pendingMessages (fst (onOpen s)) = []
   \<and> ws_config (fst (onOpen s)) = ws_config s
   \<and> ws_socket (fst (onOpen s)) = ws_socket s
   \<and> ws_onReceive (fst (onOpen s)) = ws_onReceive s
   \<and> lastAttemptMs (fst (onOpen s)) = lastAttemptMs s"
  by (simp add: onOpen_def flushPendingMessages_def)

section \<open>Close event\<close>

text \<open>
  C5, as amended. A close event makes the state Disconnected and calls nothing. When
  \<open>autoReconnect\<close> is enabled the backoff delay becomes the smaller of twice the
  previous delay (computed in 32 bits, so modulo \<open>2 ^ 32\<close>; plainly twice the delay
  when that is below \<open>2 ^ 31\<close>) and \<open>reconnectMaxDelayMs\<close>, the attempt counter
  goes up by one (modulo \<open>2 ^ 32\<close>) and the time of the event is recorded. When
  \<open>autoReconnect\<close> is disabled nothing but the state changes.
\<close>

theorem onClose_schedules_backoff:
  "ws_state (fst (onClose now s)) = Disconnected
   \<and> snd (onClose now s) = []
   \<and> (autoReconnect (ws_config s) \<longrightarrow>
         unat (currentDelayMs (fst (onClose now s)))
           = min ((unat (currentDelayMs s) * 2) mod 2 ^ 32)
                 (unat (reconnectMaxDelayMs (ws_config s)))
       \<and> unat (reconnectAttempts (fst (onClose now s)))
           = (unat (reconnectAttempts s) + 1) mod 2 ^ 32
       \<and> lastAttemptMs (fst (onClose now s)) = now)
   \<and> (autoReconnect (ws_config s) \<and> unat (currentDelayMs s) < 2 ^ 31 \<longrightarrow>
         unat (currentDelayMs (fst (onClose now s)))
           = min (unat (currentDelayMs s) * 2) (unat (reconnectMaxDelayMs (ws_config s))))
   \<and> (\<not> autoReconnect (ws_config s) \<longrightarrow>
         fst (onClose now s) = s\<lparr>ws_state := Disconnected\<rparr>)"
  by (simp add: onClose_def scheduleReconnect_def unat_min_word unat_word_ariths)

theorem onClose_schedules_backoff_witness:
  "autoReconnect (ws_config ws_open)
   \<and> unat (currentDelayMs ws_open) < 2 ^ 31
   \<and> ws_state (fst (onClose 500 ws_open)) = Disconnected
   \<and> unat (currentDelayMs ws_open) = 1000
   \<and> unat (currentDelayMs (fst (onClose 500 ws_open))) = 2000
   \<and> unat (reconnectAttempts (fst (onClose 500 ws_open))) = 1
   \<and> \<not> autoReconnect (ws_config ws_no_reconnect)
   \<and> fst (onClose 500 ws_no_reconnect) = ws_no_reconnect\<lparr>ws_state := Disconnected\<rparr>"
  using onClose_schedules_backoff [of 500 ws_open]
    onClose_schedules_backoff [of 500 ws_no_reconnect]
  by (simp add: ws_open_def ws_after_init_def ws_no_reconnect_def ws_defs Let_def)

text \<open>
  The claim as stated fails when \<open>autoReconnect\<close> is disabled: the close event leaves
  delay and counter as they were.
\<close>

theorem onClose_backoff_counterexample:
  "\<not> (unat (currentDelayMs (fst (onClose 500 ws_no_reconnect)))
        = min (unat (currentDelayMs ws_no_reconnect) * 2)
              (unat (reconnectMaxDelayMs (ws_config ws_no_reconnect)))
      \<and> unat (reconnectAttempts (fst (onClose 500 ws_no_reconnect)))
        = unat (reconnectAttempts ws_no_reconnect) + 1)"
  by (simp add: onClose_def scheduleReconnect_def ws_no_reconnect_def
      new_WebSocketTransport_def default_WebSocketConfig_def)

section \<open>Send while connected\<close>

text \<open>
  C6. A \<open>send\<close> made while the state is Connected hands the frame to the socket at once
  (one binary message, the frame's bytes, on the current handle) and changes nothing in
  the transport: the pending buffer keeps its size and contents.
\<close>

theorem ws_send_connected:
  assumes "ws_state s = Connected"
  shows "ws_send data s = (s, [WsSendBinary (ws_socket s) data])
         \<and> pendingMessages (fst (ws_send data s)) = pendingMessages s"
  using assms by (simp add: ws_send_def)

theorem ws_send_connected_witness:
  "ws_state (ws_open\<lparr>pendingMessages := [[1, 2]]\<rparr>) = Connected
   \<and> ws_send [7, 8, 9] (ws_open\<lparr>pendingMessages := [[1, 2]]\<rparr>)
       = (ws_open\<lparr>pendingMessages := [[1, 2]]\<rparr>, [WsSendBinary 1 [7, 8, 9]])
   \<and> pendingMessages (fst (ws_send [7, 8, 9] (ws_open\<lparr>pendingMessages := [[1, 2]]\<rparr>)))
       = [[1, 2]]"
proof -
  have c: "ws_state (ws_open\<lparr>pendingMessages := [[1, 2]]\<rparr>) = Connected"
    by (simp add: ws_open_def onOpen_def flushPendingMessages_def)
  have h: "ws_socket (ws_open\<lparr>pendingMessages := [[1, 2]]\<rparr>) = 1"
    by (simp add: ws_open_def ws_after_init_def ws_defs Let_def)
  show ?thesis
    using c h ws_send_connected [OF c, of "[7, 8, 9]"] by simp
qed

section \<open>Datagram Channel: polling\<close>

text \<open>
  C7, as amended. On an initialized Datagram Channel with a receive callback registered,
  every \<open>update\<close> makes exactly one receive attempt. When a non-empty datagram that
  fits the receive buffer is waiting, the callback is invoked once, with exactly the
  datagram's bytes; when nothing is waiting, \<open>update\<close> returns with no callback
  invocation and the transport unchanged. With no callback registered \<open>update\<close>
  makes no receive attempt at all.
\<close>

theorem udp_update_polls_once:
  "(initialized s \<and> udp_onReceive s = Some cb \<longrightarrow>
       length (filter is_recv_attempt (snd (udp_update r s))) = 1
     \<and> (d \<noteq> [] \<and> length d \<le> length (recvBuffer s) \<longrightarrow>
           snd (udp_update (Datagram d) s)
             = [SysRecvFrom (udp_socket s) (length (recvBuffer s)), UdpDeliver cb d])
     \<and> udp_update WouldBlock s
         = (s, [SysRecvFrom (udp_socket s) (length (recvBuffer s))]))
   \<and> (udp_onReceive s = None \<longrightarrow> udp_update r s = (s, []))"
proof -
  have attempts: "length (filter is_recv_attempt (snd (udp_update r s))) = 1"
    if "initialized s" and "udp_onReceive s = Some cb"
    using that by (cases r) (simp_all add: udp_update_def Let_def)
  have whole: "snd (udp_update (Datagram d) s)
      = [SysRecvFrom (udp_socket s) (length (recvBuffer s)), UdpDeliver cb d]"
    if "initialized s" and "udp_onReceive s = Some cb"
      and "d \<noteq> []" and "length d \<le> length (recvBuffer s)"
    using that by (simp add: udp_update_def Let_def min_absorb1)
  have idle: "udp_update WouldBlock s
      = (s, [SysRecvFrom (udp_socket s) (length (recvBuffer s))])"
    if "initialized s" and "udp_onReceive s = Some cb"
    using that by (simp add: udp_update_def Let_def)
  have silent: "udp_update r s = (s, [])" if "udp_onReceive s = None"
    using that by (simp add: udp_update_def)
  from attempts whole idle silent show ?thesis by blast
qed

theorem udp_update_polls_once_witness:
  "initialized listening_udp
   \<and> udp_onReceive listening_udp = Some 7
   \<and> recvBufferSize (udp_config listening_udp) = 4096
   \<and> length (recvBuffer listening_udp) = 4096
   \<and> snd (udp_update (Datagram [1, 2, 3, 4, 5, 6, 7, 8, 9, 10]) listening_udp)
       = [SysRecvFrom 3 4096, UdpDeliver 7 [1, 2, 3, 4, 5, 6, 7, 8, 9, 10]]
   \<and> udp_update WouldBlock listening_udp = (listening_udp, [SysRecvFrom 3 4096])
   \<and> udp_onReceive ready_udp = None
   \<and> udp_update (Datagram [1, 2, 3]) ready_udp = (ready_udp, [])"
proof -
  have cfg: "recvBufferSize (udp_config listening_udp) = 4096"
    by (simp add: listening_udp_def udp_setOnReceive_def ready_udp_def fresh_udp_def
        udp_init_def init_ok_env_def new_UdpTransport_def default_UdpConfig_def Let_def)
  show ?thesis
    using cfg
      udp_update_polls_once
        [of listening_udp 7 "Datagram [1, 2, 3, 4, 5, 6, 7, 8, 9, 10]"
            "[1, 2, 3, 4, 5, 6, 7, 8, 9, 10]"]
      udp_update_polls_once [of ready_udp 7 "Datagram [1, 2, 3]"]
    by (simp add: listening_udp_fields ready_udp_fields)
qed

text \<open>
  The claim as stated fails on an initialized channel without a callback: a datagram is
  waiting and \<open>update\<close> makes no receive attempt.
\<close>

theorem udp_update_counterexample:
  "initialized ready_udp
   \<and> length (filter is_recv_attempt
        (snd (udp_update (Datagram [1, 2, 3, 4, 5, 6, 7, 8, 9, 10]) ready_udp))) \<noteq> 1"
  by (simp add: udp_update_def ready_udp_fields)

section \<open>Socket-Stream Channel: when reconnects happen\<close>

text \<open>
  C8, as amended. With \<open>autoReconnect\<close> disabled, \<open>update\<close> does nothing, a close
  event only sets the state to Disconnected, an error event does nothing, and no
  sequence of calls and events other than \<open>init\<close> ever makes a connect attempt, from
  any state. With \<open>autoReconnect\<close> enabled, \<open>update\<close> makes one connect attempt when
  the state is Disconnected and the time elapsed on the 32-bit millisecond clock since
  the reconnect timer was last restarted is at least the current delay, and none
  otherwise. The timer is \<open>lastAttemptMs_\<close>: an \<open>update\<close> that makes an attempt sets
  it to its own clock reading and any other \<open>update\<close> leaves it alone, and after every
  history of calls and events it holds the time of the latest close event, attempting
  \<open>update\<close> or failed handle creation in \<open>init\<close> (0 for a constructed transport
  with none of these). A successful \<open>init\<close> does not restart it.
\<close>

theorem reconnect_only_when_enabled_and_due:
  "(\<not> autoReconnect (ws_config s) \<longrightarrow>
        ws_update now h now' s = (s, [])
      \<and> onClose now s = (s\<lparr>ws_state := Disconnected\<rparr>, [])
      \<and> onError s = (s, [])
      \<and> (list_all (\<lambda>e. \<not> is_init e) es \<longrightarrow> connect_attempts (snd (ws_run es s)) = 0))
   \<and> (autoReconnect (ws_config s) \<longrightarrow>
        connect_attempts (snd (ws_update now h now' s)) =
          (if ws_state s = Disconnected \<and> currentDelayMs s \<le> now - lastAttemptMs s
           then 1 else 0))
   \<and> lastAttemptMs (fst (ws_update now h now' s)) =
        (if 0 < connect_attempts (snd (ws_update now h now' s)) then now else lastAttemptMs s)
   \<and> lastAttemptMs (fst (ws_run es s)) = timer_start es s (lastAttemptMs s)
   \<and> (autoReconnect cfg \<longrightarrow>
        connect_attempts
          (snd (ws_update now h now' (fst (ws_run es (new_WebSocketTransport cfg))))) =
          (if ws_state (fst (ws_run es (new_WebSocketTransport cfg))) = Disconnected
              \<and> currentDelayMs (fst (ws_run es (new_WebSocketTransport cfg)))
                  \<le> now - timer_start es (new_WebSocketTransport cfg) 0
           then 1 else 0))"
proof (intro conjI impI)
  assume off: "\<not> autoReconnect (ws_config s)"
  show "ws_update now h now' s = (s, [])"
    using off by (simp add: ws_update_def)
  show "onClose now s = (s\<lparr>ws_state := Disconnected\<rparr>, [])"
    using off by (simp add: onClose_def scheduleReconnect_def)
  show "onError s = (s, [])"
    by (simp add: onError_def)
  show "connect_attempts (snd (ws_run es s)) = 0" if "list_all (\<lambda>e. \<not> is_init e) es"
    using off that by (rule ws_run_no_connect)
next
  assume "autoReconnect (ws_config s)"
  then show "connect_attempts (snd (ws_update now h now' s)) =
          (if ws_state s = Disconnected \<and> currentDelayMs s \<le> now - lastAttemptMs s
           then 1 else 0)"
    by (rule ws_update_attempts)
next
  show "lastAttemptMs (fst (ws_update now h now' s)) =
        (if 0 < connect_attempts (snd (ws_update now h now' s)) then now else lastAttemptMs s)"
    by (rule ws_update_records)
  show "lastAttemptMs (fst (ws_run es s)) = timer_start es s (lastAttemptMs s)"
    by (rule ws_run_timer)
next
  let ?s = "fst (ws_run es (new_WebSocketTransport cfg))"
  assume on: "autoReconnect cfg"
  have cfg: "autoReconnect (ws_config ?s)"
    using on by (simp add: ws_run_config new_WebSocketTransport_def)
  have t: "lastAttemptMs ?s = timer_start es (new_WebSocketTransport cfg) 0"
    using ws_run_timer [of es "new_WebSocketTransport cfg"]
    by (simp add: new_WebSocketTransport_def)
  show "connect_attempts (snd (ws_update now h now' ?s)) =
          (if ws_state ?s = Disconnected
              \<and> currentDelayMs ?s \<le> now - timer_start es (new_WebSocketTransport cfg) 0
           then 1 else 0)"
    using ws_update_attempts [OF cfg, of now h now'] by (simp add: t)
qed

theorem reconnect_only_when_enabled_and_due_witness:
  "\<not> autoReconnect (ws_config ws_no_reconnect)
   \<and> list_all (\<lambda>e. \<not> is_init e) quiet_events
   \<and> connect_attempts (snd (ws_run quiet_events ws_no_reconnect)) = 0
   \<and> ws_update 4000000 2 4000000 ws_no_reconnect = (ws_no_reconnect, [])
   \<and> autoReconnect (ws_config ws_closed)
   \<and> connect_attempts (snd (ws_update 2499 2 2499 ws_closed)) = 0
   \<and> connect_attempts (snd (ws_update 2500 2 2500 ws_closed)) = 1
   \<and> lastAttemptMs (fst (ws_update 2500 2 2500 ws_closed)) = 2500
   \<and> autoReconnect (ws_config ws_open)
   \<and> connect_attempts (snd (ws_update 4000000 2 4000000 ws_open)) = 0
   \<and> autoReconnect default_WebSocketConfig
   \<and> timer_start closed_history (new_WebSocketTransport default_WebSocketConfig) 0 = 1500
   \<and> connect_attempts (snd (ws_update 3499 2 3499
        (fst (ws_run closed_history (new_WebSocketTransport default_WebSocketConfig))))) = 0
   \<and> connect_attempts (snd (ws_update 3500 2 3500
        (fst (ws_run closed_history (new_WebSocketTransport default_WebSocketConfig))))) = 1
   \<and> timer_start retried_history (new_WebSocketTransport default_WebSocketConfig) 0 = 3500
   \<and> connect_attempts (snd (ws_update 3600 2 3600
        (fst (ws_run retried_history (new_WebSocketTransport default_WebSocketConfig))))) = 0
   \<and> connect_attempts (snd (ws_update 7500 2 7500
        (fst (ws_run retried_history (new_WebSocketTransport default_WebSocketConfig))))) = 1"
proof -
  let ?c = default_WebSocketConfig
  have off: "connect_attempts (snd (ws_run quiet_events ws_no_reconnect)) = 0
      \<and> ws_update 4000000 2 4000000 ws_no_reconnect = (ws_no_reconnect, [])"
    using reconnect_only_when_enabled_and_due [of ws_no_reconnect 4000000 2 4000000 quiet_events ?c]
    by (simp add: ws_no_reconnect_fields quiet_events_no_init)
  have early: "connect_attempts (snd (ws_update 2499 2 2499 ws_closed)) = 0"
    using reconnect_only_when_enabled_and_due [of ws_closed 2499 2 2499 quiet_events ?c]
    by (simp add: ws_closed_fields)
  have due: "connect_attempts (snd (ws_update 2500 2 2500 ws_closed)) = 1
      \<and> lastAttemptMs (fst (ws_update 2500 2 2500 ws_closed)) = 2500"
    using reconnect_only_when_enabled_and_due [of ws_closed 2500 2 2500 quiet_events ?c]
    by (simp add: ws_closed_fields)
  have connected: "connect_attempts (snd (ws_update 4000000 2 4000000 ws_open)) = 0"
    using reconnect_only_when_enabled_and_due [of ws_open 4000000 2 4000000 quiet_events ?c]
    by (simp add: ws_open_fields)
  have h1: "connect_attempts (snd (ws_update 3499 2 3499
        (fst (ws_run closed_history (new_WebSocketTransport ?c))))) = 0"
    using reconnect_only_when_enabled_and_due [of ws_open 3499 2 3499 closed_history ?c]
    by (simp add: closed_history_facts)
  have h2: "connect_attempts (snd (ws_update 3500 2 3500
        (fst (ws_run closed_history (new_WebSocketTransport ?c))))) = 1"
    using reconnect_only_when_enabled_and_due [of ws_open 3500 2 3500 closed_history ?c]
    by (simp add: closed_history_facts)
  have h3: "connect_attempts (snd (ws_update 3600 2 3600
        (fst (ws_run retried_history (new_WebSocketTransport ?c))))) = 0"
    using reconnect_only_when_enabled_and_due [of ws_open 3600 2 3600 retried_history ?c]
    by (simp add: closed_history_facts retried_history_facts)
  have h4: "connect_attempts (snd (ws_update 7500 2 7500
        (fst (ws_run retried_history (new_WebSocketTransport ?c))))) = 1"
    using reconnect_only_when_enabled_and_due [of ws_open 7500 2 7500 retried_history ?c]
    by (simp add: closed_history_facts retried_history_facts)
  show ?thesis
    using off early due connected h1 h2 h3 h4
    by (simp add: ws_no_reconnect_fields quiet_events_no_init ws_closed_fields
        ws_open_fields closed_history_facts retried_history_facts)
qed

text \<open>
  The claim as stated, with the delay counted from the last connect attempt, fails:
  after \<open>init\<close> at time 0 and a close event at time 1500 the delay is 2000 and the
  state Disconnected; at time 2000 the last attempt is 2000 ms old, and \<open>update\<close>
  makes no attempt, because the delay runs from the close event.
\<close>

theorem reconnect_since_attempt_counterexample:
  "autoReconnect (ws_config (fst (ws_run closed_history (new_WebSocketTransport default_WebSocketConfig))))
   \<and> ws_state (fst (ws_run closed_history (new_WebSocketTransport default_WebSocketConfig))) = Disconnected
   \<and> last_attempt_at closed_history (new_WebSocketTransport default_WebSocketConfig) None = Some 0
   \<and> currentDelayMs (fst (ws_run closed_history (new_WebSocketTransport default_WebSocketConfig)))
        \<le> 2000 - 0
   \<and> connect_attempts (snd (ws_update 2000 2 2000
        (fst (ws_run closed_history (new_WebSocketTransport default_WebSocketConfig))))) = 0"
  by (simp add: closed_history_def ws_defs connect_attempts_def Let_def)

section \<open>Datagram Channel: moves\<close>

text \<open>
  C9. Moving from an initialized Datagram Channel, by the move constructor or by move
  assignment to a different object, gives the destination everything the source held
  (so it is initialized, with the same socket, configuration, callback, peer address and
  buffer) and leaves the source with no socket and not initialized: \<open>isReady\<close> is
  false, and \<open>send\<close> and \<open>update\<close> make no call and change nothing. Move assignment
  first closes the socket the destination owned, and only that one.
\<close>

theorem udp_move_transfers_ownership:
  "(initialized s \<longrightarrow>
      fst (udp_move_construct r s) = s
    \<and> udp_isReady (fst (udp_move_construct r s))
    \<and> \<not> udp_isReady (snd (udp_move_construct r s))
    \<and> udp_socket (snd (udp_move_construct r s)) = - 1
    \<and> udp_send data (snd (udp_move_construct r s)) = (snd (udp_move_construct r s), [])
    \<and> udp_update rv (snd (udp_move_construct r s)) = (snd (udp_move_construct r s), []))
   \<and> (initialized (st other) \<and> this \<noteq> other \<longrightarrow>
      fst (udp_move_assign r this other st) this = st other
    \<and> udp_isReady (fst (udp_move_assign r this other st) this)
    \<and> \<not> udp_isReady (fst (udp_move_assign r this other st) other)
    \<and> udp_socket (fst (udp_move_assign r this other st) other) = - 1
    \<and> udp_send data (fst (udp_move_assign r this other st) other)
         = (fst (udp_move_assign r this other st) other, [])
    \<and> udp_update rv (fst (udp_move_assign r this other st) other)
         = (fst (udp_move_assign r this other st) other, [])
    \<and> snd (udp_move_assign r this other st) = snd (cleanup (st this)))"
proof (intro conjI impI)
  assume "initialized s"
  then show "fst (udp_move_construct r s) = s"
    and "udp_isReady (fst (udp_move_construct r s))"
    by (simp_all add: udp_move_construct_def udp_isReady_def)
  show "\<not> udp_isReady (snd (udp_move_construct r s))"
    and "udp_socket (snd (udp_move_construct r s)) = - 1"
    and "udp_send data (snd (udp_move_construct r s)) = (snd (udp_move_construct r s), [])"
    and "udp_update rv (snd (udp_move_construct r s)) = (snd (udp_move_construct r s), [])"
    by (simp_all add: udp_move_construct_def udp_isReady_def udp_send_def udp_update_def)
next
  assume a: "initialized (st other) \<and> this \<noteq> other"
  let ?st = "fst (udp_move_assign r this other st)"
  have dst: "?st this = st other"
    using a by (simp add: udp_move_assign_def split_beta Let_def)
  have src: "\<not> initialized (?st other)" "udp_socket (?st other) = - 1"
    using a by (simp_all add: udp_move_assign_def split_beta Let_def)
  show "?st this = st other" by (rule dst)
  show "udp_isReady (?st this)" using a dst by (simp add: udp_isReady_def)
  show "\<not> udp_isReady (?st other)" using src by (simp add: udp_isReady_def)
  show "udp_socket (?st other) = - 1" by (rule src)
  show "udp_send data (?st other) = (?st other, [])"
    using src by (simp add: udp_send_def)
  show "udp_update rv (?st other) = (?st other, [])"
    using src by (simp add: udp_update_def)
  show "snd (udp_move_assign r this other st) = snd (cleanup (st this))"
    using a by (simp add: udp_move_assign_def split_beta Let_def)
qed

theorem udp_move_transfers_ownership_witness:
  "initialized listening_udp
   \<and> fst (udp_move_construct residue listening_udp) = listening_udp
   \<and> udp_socket (fst (udp_move_construct residue listening_udp)) = 3
   \<and> udp_onReceive (fst (udp_move_construct residue listening_udp)) = Some 7
   \<and> \<not> udp_isReady (snd (udp_move_construct residue listening_udp))
   \<and> udp_send [1, 2] (snd (udp_move_construct residue listening_udp))
       = (snd (udp_move_construct residue listening_udp), [])
   \<and> udp_update (Datagram [1, 2]) (snd (udp_move_construct residue listening_udp))
       = (snd (udp_move_construct residue listening_udp), [])
   \<and> initialized (two_objects 20) \<and> (10::nat) \<noteq> 20
   \<and> fst (udp_move_assign residue 10 20 two_objects) 10 = listening_udp
   \<and> \<not> udp_isReady (fst (udp_move_assign residue 10 20 two_objects) 20)
   \<and> snd (udp_move_assign residue 10 20 two_objects) = []"
proof -
  have src: "two_objects 20 = listening_udp" and dst: "two_objects 10 = fresh_udp"
    by (simp_all add: two_objects_def)
  have fresh: "snd (cleanup fresh_udp) = []"
    by (simp add: cleanup_def fresh_udp_def new_UdpTransport_def)
  show ?thesis
    using udp_move_transfers_ownership
            [of listening_udp residue "[1, 2]" "Datagram [1, 2]" two_objects 20 10]
    by (simp add: src dst fresh listening_udp_fields)
qed

section \<open>Datagram Channel: before a successful init\<close>

text \<open>
  C10. A Datagram Channel is not initialized after construction, after an \<open>init\<close> that
  returned an error, and after being moved from (by constructor or by assignment to
  another object). On every channel that is not initialized, \<open>send\<close> and \<open>update\<close>
  make no system call, do not invoke the callback and leave the object as it was.
\<close>

theorem udp_uninitialized_inert:
  "\<not> initialized (new_UdpTransport cfg junk)
   \<and> (fst (udp_init env s0) \<noteq> Inr () \<longrightarrow> \<not> initialized (fst (snd (udp_init env s0))))
   \<and> \<not> initialized (snd (udp_move_construct r s1))
   \<and> (this \<noteq> other \<longrightarrow> \<not> initialized (fst (udp_move_assign r this other st) other))
   \<and> (\<not> initialized s \<longrightarrow> udp_send data s = (s, []) \<and> udp_update rv s = (s, []))"
proof -
  have ctor: "\<not> initialized (new_UdpTransport cfg junk)"
    by (simp add: new_UdpTransport_def)
  have failed: "\<not> initialized (fst (snd (udp_init env s0)))"
    if "fst (udp_init env s0) \<noteq> Inr ()"
    using that by (simp add: udp_init_def cleanup_def Let_def split: if_splits)
  have moved: "\<not> initialized (snd (udp_move_construct r s1))"
    by (simp add: udp_move_construct_def)
  have assigned: "\<not> initialized (fst (udp_move_assign r this other st) other)"
    if "this \<noteq> other"
    using that by (simp add: udp_move_assign_def split_beta Let_def)
  have inert: "udp_send data s = (s, []) \<and> udp_update rv s = (s, [])"
    if "\<not> initialized s"
    using that by (simp add: udp_send_def udp_update_def)
  from ctor failed moved assigned inert show ?thesis by blast
qed

theorem udp_uninitialized_inert_witness:
  "fst (udp_init init_bind_fails_env fresh_udp) \<noteq> Inr ()
   \<and> \<not> initialized (fst (snd (udp_init init_bind_fails_env fresh_udp)))
   \<and> snd (snd (udp_init init_bind_fails_env fresh_udp))
       = [SysSocket, SysFcntlGetfl 3, SysFcntlSetNonblock 3, SysBind 3, SysClose 3]
   \<and> (10::nat) \<noteq> 20
   \<and> \<not> initialized (fst (udp_move_assign residue 10 20 two_objects) 20)
   \<and> \<not> initialized fresh_udp
   \<and> udp_send [1, 2, 3] fresh_udp = (fresh_udp, [])
   \<and> udp_update (Datagram [4, 5]) fresh_udp = (fresh_udp, [])"
proof -
  have run: "udp_init init_bind_fails_env fresh_udp
      = (Inl HARDWARE_INIT_FAILED, fresh_udp,
         [SysSocket, SysFcntlGetfl 3, SysFcntlSetNonblock 3, SysBind 3, SysClose 3])"
    by (simp add: udp_init_def init_bind_fails_env_def init_ok_env_def fresh_udp_def
        new_UdpTransport_def cleanup_def Let_def)
  have fresh: "\<not> initialized fresh_udp"
    by (simp add: fresh_udp_def new_UdpTransport_def)
  show ?thesis
    using run fresh
      udp_uninitialized_inert
        [of default_UdpConfig junk_addr init_bind_fails_env fresh_udp residue
            listening_udp 10 20 two_objects fresh_udp "[1, 2, 3]" "Datagram [4, 5]"]
    by simp
qed

end
